theory Spec2Isabelle
  imports Main "HOL-Library.Sublist" "HOL-Library.Word"
begin

section \<open>Data model\<close>

text \<open>
  The program is one Python script, \<^verbatim>\<open>streamlit-example-1.py\<close>. It keeps its configuration
  in \<^verbatim>\<open>st.session_state\<close>, talks to an Ollama server through the \<^verbatim>\<open>ollama\<close> client library
  and writes to the page through \<^verbatim>\<open>st.warning\<close>, \<^verbatim>\<open>st.error\<close>, \<^verbatim>\<open>st.markdown\<close> and \<^verbatim>\<open>st.code\<close>.

  Python text is modelled as \<^typ>\<open>string\<close>; a \<^typ>\<open>char\<close> stands for one code point in the
  range 0 to 255. An exception is modelled by the text \<^verbatim>\<open>str(e)\<close> it carries; only
  instances of \<^verbatim>\<open>Exception\<close> are modelled (the handlers of the script are all
  \<^verbatim>\<open>except Exception\<close>).
\<close>

datatype exn = Exception (message: string)

text \<open>A client handle, \<^verbatim>\<open>Client(host=h)\<close>: it is bound to the host it was built for.\<close>

datatype client = Client (host_of: string)

text \<open>
  The calls that reach the server: \<^verbatim>\<open>client.show(model)\<close> and
  \<^verbatim>\<open>client.generate(model=, prompt=, system=, stream=True)\<close>, each with the host of the
  client it is made on.
\<close>

datatype net_call =
    Show string string
  | Generate string string string "string option"

text \<open>
  A streamed chunk is a dictionary with text fields. Iterating the stream either hands out
  the next chunk or raises.
\<close>

type_synonym chunk = "string \<rightharpoonup> string"

datatype stream_item = Chunk chunk | Raise exn

text \<open>What the script writes to the page, in order.\<close>

datatype ui =
    Warning string
  | Error string
  | Empty
  | Markdown string
  | Expander string
  | Code string

text \<open>
  The behaviour of the \<^verbatim>\<open>ollama\<close> library and of the server behind it, taken as a
  parameter. Building a client does no input or output, so whether \<^verbatim>\<open>Client(host=h)\<close>
  raises depends on \<open>h\<close> only. The answers of the server may depend on every call made so
  far.
\<close>

record ollama =
  client_raises :: "string \<Rightarrow> exn option"
  show_raises :: "net_call list \<Rightarrow> string \<Rightarrow> string \<Rightarrow> exn option"
  generate_stream ::
    "net_call list \<Rightarrow> string \<Rightarrow> string \<Rightarrow> string \<Rightarrow> string option \<Rightarrow> stream_item list"

text \<open>
  \<^verbatim>\<open>st.session_state\<close> (lines 7 to 16), together with the calls made to the server and the
  output written to the page so far.
\<close>

record state =
  ollama_host :: string
  ollama_model :: string
  ollama_client :: "client option"
  connection_status :: string
  last_successful_config :: "(string \<rightharpoonup> string) option"
  net :: "net_call list"
  ui :: "ui list"

definition initial_state :: state where
  "initial_state =
     \<lparr>ollama_host = ''http://localhost:11434'',
      ollama_model = ''llama3.2'',
      ollama_client = None,
      connection_status = ''Not Connected'',
      last_successful_config = None,
      net = [],
      ui = []\<rparr>"

section \<open>Connection manager\<close>

definition new_client :: "ollama \<Rightarrow> string \<Rightarrow> exn + client" where
  "new_client lib host =
     (case client_raises lib host of
        Some e \<Rightarrow> Inl e
      | None \<Rightarrow> Inr (Client host))"

text \<open>
  \<^verbatim>\<open>initialize_ollama_client(host, model)\<close>, lines 19 to 32. The whole body is inside
  \<^verbatim>\<open>try\<close>; the handler returns \<^verbatim>\<open>(False, f"Unexpected error: {str(e)}")\<close>.
\<close>

definition initialize_ollama_client ::
  "ollama \<Rightarrow> string \<Rightarrow> string \<Rightarrow> state \<Rightarrow> (bool \<times> string option) \<times> state" where
  "initialize_ollama_client lib host model s =
     (case new_client lib host of
        Inl e \<Rightarrow> ((False, Some (''Unexpected error: '' @ message e)), s)
      | Inr c \<Rightarrow>
          (let s1 = s\<lparr>net := net s @ [Show (host_of c) model]\<rparr>
           in case show_raises lib (net s) (host_of c) model of
                Some e \<Rightarrow> ((False, Some (''Unexpected error: '' @ message e)), s1)
              | None \<Rightarrow> ((True, None), s1)))"

text \<open>How an f-string renders a value that is a string or \<^verbatim>\<open>None\<close>.\<close>

definition fmt :: "string option \<Rightarrow> string" where
  "fmt v = (case v of None \<Rightarrow> ''None'' | Some t \<Rightarrow> t)"

text \<open>
  \<^verbatim>\<open>update_connection()\<close>, lines 35 to 54. The second \<^verbatim>\<open>Client(host=...)\<close> of line 46 is
  outside every \<^verbatim>\<open>try\<close>: were it to raise, the exception would leave the function.
\<close>

definition update_connection :: "ollama \<Rightarrow> state \<Rightarrow> exn + state" where
  "update_connection lib s =
     (case initialize_ollama_client lib (ollama_host s) (ollama_model s) s of
        ((success, error), s1) \<Rightarrow>
          if success then
            (case new_client lib (ollama_host s1) of
               Inl e \<Rightarrow> Inl e
             | Inr c \<Rightarrow>
                 Inr (s1\<lparr>ollama_client := Some c,
                         connection_status := ''Connected'',
                         last_successful_config :=
                           Some [''host'' \<mapsto> ollama_host s1, ''model'' \<mapsto> ollama_model s1]\<rparr>))
          else
            Inr (s1\<lparr>ollama_client := None,
                    connection_status := ''Connection Failed: '' @ fmt error\<rparr>))"

text \<open>The handler of the Connect button, lines 148 to 151.\<close>

definition connect :: "ollama \<Rightarrow> string \<Rightarrow> string \<Rightarrow> state \<Rightarrow> exn + state" where
  "connect lib new_host new_model s =
     update_connection lib (s\<lparr>ollama_host := new_host, ollama_model := new_model\<rparr>)"

section \<open>Response streamer\<close>

text \<open>\<^verbatim>\<open>str(n)\<close> for a length: the decimal digits of a natural number.\<close>

definition digit :: "nat \<Rightarrow> char" where
  "digit d = char_of (48 + d)"

fun str_of_nat :: "nat \<Rightarrow> string" where
  "str_of_nat n = (if n < 10 then [digit n] else str_of_nat (n div 10) @ [digit (n mod 10)])"

declare str_of_nat.simps [simp del]

text \<open>
  The loop of lines 72 to 81 over the chunks the stream hands out. A chunk with a
  \<^verbatim>\<open>response\<close> field is appended to \<^verbatim>\<open>full_response\<close> and the container is redrawn
  with the accumulated text; any other chunk is skipped. The loop ends when the stream
  does, or when the stream raises.
\<close>

fun consume :: "stream_item list \<Rightarrow> string \<Rightarrow> state \<Rightarrow> (exn + string) \<times> state" where
  "consume [] full_response s = (Inr full_response, s)"
| "consume (Raise e # rest) full_response s = (Inl e, s)"
| "consume (Chunk c # rest) full_response s =
     (case c ''response'' of
        None \<Rightarrow> consume rest full_response s
      | Some r \<Rightarrow>
          consume rest (full_response @ r) (s\<lparr>ui := ui s @ [Markdown (full_response @ r)]\<rparr>))"

text \<open>\<^verbatim>\<open>system_prompt if system_prompt else None\<close>, line 75.\<close>

definition system_arg :: "string option \<Rightarrow> string option" where
  "system_arg system_prompt =
     (case system_prompt of
        None \<Rightarrow> None
      | Some sp \<Rightarrow> if sp = [] then None else Some sp)"

text \<open>
  The body of the \<^verbatim>\<open>try\<close> of \<^verbatim>\<open>generate_ollama_response\<close>, lines 67 to 90. It raises
  when the stored client is \<^verbatim>\<open>None\<close> (the attribute \<^verbatim>\<open>generate\<close> is looked up on it),
  when the stream raises, and when \<^verbatim>\<open>len\<close> is taken of a system prompt that is \<^verbatim>\<open>None\<close>.
\<close>

definition generate_body ::
  "ollama \<Rightarrow> string \<Rightarrow> string option \<Rightarrow> state \<Rightarrow> (exn + unit) \<times> state" where
  "generate_body lib user_prompt system_prompt s =
     (let s0 = s\<lparr>ui := ui s @ [Empty]\<rparr>
      in case ollama_client s0 of
           None \<Rightarrow>
             (Inl (Exception
                    ([CHR 0x27] @ ''NoneType'' @ [CHR 0x27] @ '' object has no attribute '' @
                     [CHR 0x27] @ ''generate'' @ [CHR 0x27])),
              s0)
         | Some c \<Rightarrow>
             (let model = ollama_model s0;
                  system = system_arg system_prompt;
                  stream = generate_stream lib (net s0) (host_of c) model user_prompt system;
                  s1 = s0\<lparr>net := net s0 @ [Generate (host_of c) model user_prompt system]\<rparr>
              in case consume stream [] s1 of
                   (Inl e, s2) \<Rightarrow> (Inl e, s2)
                 | (Inr full_response, s2) \<Rightarrow>
                     (let s3 = s2\<lparr>ui := ui s2 @ [Expander ''Debug Information'']\<rparr>
                      in case system_prompt of
                           None \<Rightarrow>
                             (Inl (Exception
                                    (''object of type '' @ [CHR 0x27] @ ''NoneType'' @
                                     [CHR 0x27] @ '' has no len()'')),
                              s3)
                         | Some sp \<Rightarrow>
                             (Inr (),
                              s3\<lparr>ui := ui s3 @
                                [Code (''Model: '' @ ollama_model s3 @ [CHR 0x0A] @
                                       ''Host: '' @ ollama_host s3 @ [CHR 0x0A] @
                                       ''System Prompt Length: '' @ str_of_nat (length sp) @
                                       [CHR 0x0A] @
                                       ''User Prompt Length: '' @
                                       str_of_nat (length user_prompt))]\<rparr>))))"

text \<open>
  \<^verbatim>\<open>generate_ollama_response(user_prompt, system_prompt)\<close>, lines 57 to 94. The guard
  \<^verbatim>\<open>not user_prompt\<close> is true of the empty string only. The handler reports the error and
  calls \<^verbatim>\<open>update_connection()\<close>.
\<close>

definition generate_ollama_response ::
  "ollama \<Rightarrow> string \<Rightarrow> string option \<Rightarrow> state \<Rightarrow> exn + state" where
  "generate_ollama_response lib user_prompt system_prompt s =
     (if user_prompt = [] then
        Inr (s\<lparr>ui := ui s @ [Warning ''Please enter a prompt before generating.'']\<rparr>)
      else
        (case generate_body lib user_prompt system_prompt s of
           (Inr u, s') \<Rightarrow> Inr s'
         | (Inl e, s') \<Rightarrow>
             update_connection lib
               (s'\<lparr>ui := ui s' @
                  [Error (''An error occurred while generating: '' @ message e)]\<rparr>)))"

section \<open>Document reader\<close>

text \<open>\<^verbatim>\<open>str.lower()\<close> on code points up to 255: the letters A to Z and the capital
  letters of Latin-1 (0xC0 to 0xDE, the multiplication sign 0xD7 apart) move up by 32.\<close>

definition lower_char :: "char \<Rightarrow> char" where
  "lower_char c =
     (let n = (of_char c :: nat)
      in if (65 \<le> n \<and> n \<le> 90) \<or> (192 \<le> n \<and> n \<le> 222 \<and> n \<noteq> 215)
         then char_of (n + 32) else c)"

definition lower :: "string \<Rightarrow> string" where
  "lower t = map lower_char t"

text \<open>\<^verbatim>\<open>p.rfind(c)\<close> for a single character: the last index of \<open>c\<close>, or \<open>-1\<close>.\<close>

fun rfind :: "string \<Rightarrow> char \<Rightarrow> int" where
  "rfind [] c = - 1"
| "rfind (x # xs) c =
     (let r = rfind xs c
      in if 0 \<le> r then r + 1 else if x = c then 0 else - 1)"

text \<open>
  \<^verbatim>\<open>os.path.splitext\<close> of a POSIX system (\<^verbatim>\<open>genericpath._splitext(p, '/', None, '.')\<close>).
  The extension starts at the last dot, provided that dot comes after the last slash and
  after some character of the base name that is not a dot.
\<close>

function splitext_loop :: "string \<Rightarrow> nat \<Rightarrow> nat \<Rightarrow> string \<times> string" where
  "splitext_loop p filenameIndex dotIndex =
     (if filenameIndex < dotIndex then
        (if take 1 (drop filenameIndex p) \<noteq> ''.''
         then (take dotIndex p, drop dotIndex p)
         else splitext_loop p (Suc filenameIndex) dotIndex)
      else (p, []))"
  by pat_completeness auto
termination
  by (relation "measure (\<lambda>(p, filenameIndex, dotIndex). dotIndex - filenameIndex)") auto

declare splitext_loop.simps [simp del]

definition splitext :: "string \<Rightarrow> string \<times> string" where
  "splitext p =
     (let sepIndex = rfind p (CHR ''/'');
          dotIndex = rfind p (CHR ''.'')
      in if dotIndex > sepIndex
         then splitext_loop p (nat (sepIndex + 1)) (nat dotIndex)
         else (p, []))"

text \<open>\<^verbatim>\<open>sep.join(parts)\<close>.\<close>

fun join :: "string \<Rightarrow> string list \<Rightarrow> string" where
  "join sep [] = []"
| "join sep [x] = x"
| "join sep (x # y # ys) = x @ sep @ join sep (y # ys)"

text \<open>
  An uploaded file: its name and its bytes. The two libraries that read the bytes are
  parameters: \<^verbatim>\<open>bytes.decode("utf-8")\<close> gives text or raises, \<^verbatim>\<open>PyPDF2.PdfReader\<close>
  gives the pages or raises, and \<^verbatim>\<open>extract_text()\<close> of a page gives text or raises.
\<close>

type_synonym byte = "8 word"

record uploaded_file =
  name :: string
  content :: "byte list"

type_synonym page = "exn + string"

record doclib =
  decode_utf8 :: "byte list \<Rightarrow> exn + string"
  PdfReader :: "byte list \<Rightarrow> exn + page list"

definition text_extensions :: "string list" where
  "text_extensions =
     [''.txt'', ''.md'', ''.js'', ''.py'', ''.cs'', ''.go'', ''.html'', ''.css'', ''.xml'',
      ''.json'']"

text \<open>The loop of lines 116 to 118 over the pages, in page order.\<close>

fun extract_pages :: "page list \<Rightarrow> string \<Rightarrow> exn + string" where
  "extract_pages [] text = Inr text"
| "extract_pages (page # pages) text =
     (case page of
        Inl e \<Rightarrow> Inl e
      | Inr t \<Rightarrow> extract_pages pages (text @ t))"

text \<open>\<^verbatim>\<open>read_document_content(uploaded_file)\<close>, lines 97 to 125.\<close>

definition read_document_content ::
  "doclib \<Rightarrow> uploaded_file \<Rightarrow> state \<Rightarrow> string option \<times> state" where
  "read_document_content dl uploaded_file s =
     (let file_extension = lower (snd (splitext (name uploaded_file)))
      in if file_extension \<in> set text_extensions then
           (case decode_utf8 dl (content uploaded_file) of
              Inr t \<Rightarrow> (Some t, s)
            | Inl e \<Rightarrow>
                (None,
                 s\<lparr>ui := ui s @ [Error (''Error reading text-based content: '' @ message e)]\<rparr>))
         else if file_extension = ''.pdf'' then
           (case (case PdfReader dl (content uploaded_file) of
                    Inl e \<Rightarrow> Inl e
                  | Inr pages \<Rightarrow> extract_pages pages []) of
              Inr t \<Rightarrow> (Some t, s)
            | Inl e \<Rightarrow>
                (None, s\<lparr>ui := ui s @ [Error (''Error reading PDF content: '' @ message e)]\<rparr>))
         else
           (None,
            s\<lparr>ui := ui s @
              [Warning (''Unsupported file type. Please upload TXT, PDF, MD, or code files ('' @
                        join '', '' (drop 2 text_extensions) @ '').'')]\<rparr>))"

section \<open>Notions used to state the properties\<close>

text \<open>The exception a stream raises, if it raises: the first \<open>Raise\<close> in it.\<close>

fun stream_error :: "stream_item list \<Rightarrow> exn option" where
  "stream_error [] = None"
| "stream_error (Raise e # rest) = Some e"
| "stream_error (Chunk c # rest) = stream_error rest"

text \<open>
  The texts of the \<^verbatim>\<open>response\<close> fields of the chunks a stream hands out before it ends
  or raises, in arrival order.
\<close>

fun responses :: "stream_item list \<Rightarrow> string list" where
  "responses [] = []"
| "responses (Raise e # rest) = []"
| "responses (Chunk c # rest) =
     (case c ''response'' of
        None \<Rightarrow> responses rest
      | Some r \<Rightarrow> r # responses rest)"

text \<open>The running concatenations of a list of texts, starting from \<open>acc\<close>.\<close>

fun running :: "string \<Rightarrow> string list \<Rightarrow> string list" where
  "running acc [] = []"
| "running acc (r # rs) = (acc @ r) # running (acc @ r) rs"

text \<open>The texts the response container was redrawn with.\<close>

fun markdowns :: "ui list \<Rightarrow> string list" where
  "markdowns [] = []"
| "markdowns (Markdown t # out) = t # markdowns out"
| "markdowns (x # out) = markdowns out"

text \<open>The \<^verbatim>\<open>generate\<close> calls among the calls made to the server.\<close>

fun generate_calls :: "net_call list \<Rightarrow> net_call list" where
  "generate_calls [] = []"
| "generate_calls (Generate h m p sys # calls) = Generate h m p sys # generate_calls calls"
| "generate_calls (x # calls) = generate_calls calls"

section \<open>Test doubles\<close>

text \<open>
  A server that knows one host and one model, and streams \<^verbatim>\<open>Hel\<close>, a chunk without a
  \<^verbatim>\<open>response\<close> field, then \<^verbatim>\<open>lo\<close>.
\<close>

definition good_server :: ollama where
  "good_server =
     \<lparr>client_raises = (\<lambda>h. if h = ''http://localhost:11434'' then None
                             else Some (Exception ''Invalid host'')),
      show_raises = (\<lambda>calls h m. if m = ''llama3.2'' then None
                                  else Some (Exception ''model not found'')),
      generate_stream = (\<lambda>calls h m p sys.
        [Chunk [''response'' \<mapsto> ''Hel''], Chunk [''model'' \<mapsto> m],
         Chunk [''response'' \<mapsto> ''lo'']])\<rparr>"

text \<open>A server whose stream breaks after the first chunk.\<close>

definition flaky_server :: ollama where
  "flaky_server =
     \<lparr>client_raises = (\<lambda>h. None),
      show_raises = (\<lambda>calls h m. None),
      generate_stream = (\<lambda>calls h m p sys.
        [Chunk [''response'' \<mapsto> ''Hel''], Raise (Exception ''connection reset'')])\<rparr>"

definition connected_state :: state where
  "connected_state =
     initial_state\<lparr>ollama_client := Some (Client ''http://localhost:11434''),
                   connection_status := ''Connected''\<rparr>"

text \<open>
  Document libraries for the examples: the decoder accepts bytes below 128 only; the PDF
  reader wants the header \<^verbatim>\<open>%PDF\<close> and then takes every byte as one page, whose text is
  that byte as a character, a byte from 128 on being a page that cannot be extracted.
\<close>

definition ascii_decode :: "byte list \<Rightarrow> exn + string" where
  "ascii_decode bs =
     (if list_all (\<lambda>b. b < 128) bs then Inr (map (\<lambda>b. char_of (unat b)) bs)
      else Inl (Exception ''invalid start byte''))"

definition toy_pdf :: "byte list \<Rightarrow> exn + page list" where
  "toy_pdf bs =
     (if take 4 bs = [37, 80, 68, 70]
      then Inr (map (\<lambda>b. if b < 128 then Inr [char_of (unat b)]
                          else Inl (Exception ''cannot extract page'')) (drop 4 bs))
      else Inl (Exception ''EOF marker not found''))"

definition toy_doclib :: doclib where
  "toy_doclib = \<lparr>decode_utf8 = ascii_decode, PdfReader = toy_pdf\<rparr>"

section \<open>Connection manager: properties\<close>

text \<open>
  \<open>update_connection\<close> always returns. The client of line 46 is built for the same host
  as the one \<open>initialize_ollama_client\<close> has just built, so it cannot raise where the
  first did not.
\<close>

lemma update_connection_eq:
  "update_connection lib s =
     Inr (case client_raises lib (ollama_host s) of
            Some e \<Rightarrow>
              s\<lparr>ollama_client := None,
                connection_status := ''Connection Failed: Unexpected error: '' @ message e\<rparr>
          | None \<Rightarrow>
              (case show_raises lib (net s) (ollama_host s) (ollama_model s) of
                 Some e \<Rightarrow>
                   s\<lparr>net := net s @ [Show (ollama_host s) (ollama_model s)],
                     ollama_client := None,
                     connection_status :=
                       ''Connection Failed: Unexpected error: '' @ message e\<rparr>
               | None \<Rightarrow>
                   s\<lparr>net := net s @ [Show (ollama_host s) (ollama_model s)],
                     ollama_client := Some (Client (ollama_host s)),
                     connection_status := ''Connected'',
                     last_successful_config :=
                       Some [''host'' \<mapsto> ollama_host s, ''model'' \<mapsto> ollama_model s]\<rparr>))"
  by (simp add: update_connection_def initialize_ollama_client_def new_client_def fmt_def
      split: option.splits)

text \<open>
  Claim C8. When the client can be built for the host and the model query succeeds,
  \<open>initialize_ollama_client\<close> returns \<open>(True, None)\<close> and the Connect handler returns with
  the new host and model stored as the configuration, a client newly built for that host
  stored in place of whatever was there, the status \<^verbatim>\<open>Connected\<close>, and the pair recorded as
  the last successful configuration. One \<^verbatim>\<open>show\<close> call was made.
\<close>

theorem connect_success:
  assumes "client_raises lib host = None"
    and "show_raises lib (net s) host model = None"
  shows "fst (initialize_ollama_client lib host model s) = (True, None) \<and>
         connect lib host model s =
           Inr (s\<lparr>ollama_host := host,
                   ollama_model := model,
                   net := net s @ [Show host model],
                   ollama_client := Some (Client host),
                   connection_status := ''Connected'',
                   last_successful_config := Some [''host'' \<mapsto> host, ''model'' \<mapsto> model]\<rparr>)"
  using assms
  by (simp add: connect_def update_connection_eq initialize_ollama_client_def new_client_def)

theorem connect_success_witness:
  "client_raises good_server ''http://localhost:11434'' = None \<and>
   show_raises good_server (net initial_state) ''http://localhost:11434'' ''llama3.2'' = None \<and>
   fst (initialize_ollama_client good_server ''http://localhost:11434'' ''llama3.2''
          initial_state) = (True, None) \<and>
   connect good_server ''http://localhost:11434'' ''llama3.2'' initial_state =
     Inr (initial_state\<lparr>net := [Show ''http://localhost:11434'' ''llama3.2''],
            ollama_client := Some (Client ''http://localhost:11434''),
            connection_status := ''Connected'',
            last_successful_config :=
              Some [''host'' \<mapsto> ''http://localhost:11434'', ''model'' \<mapsto> ''llama3.2'']\<rparr>)"
  using connect_success [of good_server "''http://localhost:11434''" initial_state "''llama3.2''"]
  by (simp add: good_server_def initial_state_def)

text \<open>
  Claim C2. When building the client raises, or the client is built and the model query
  raises, the exception \<open>e\<close> is caught: \<open>initialize_ollama_client\<close> returns \<open>False\<close> with
  the message \<^verbatim>\<open>Unexpected error: \<close> followed by \<^verbatim>\<open>str(e)\<close>, which is not empty, and the
  Connect handler returns with no client stored, whatever was stored before, and with the
  status \<^verbatim>\<open>Connection Failed: \<close> followed by that message. The new host and model stay
  in the configuration; the last successful configuration is left as it was.
\<close>

theorem connect_failure:
  assumes "client_raises lib host = Some e \<or>
           (client_raises lib host = None \<and> show_raises lib (net s) host model = Some e)"
  shows "\<exists>msg s'. fst (initialize_ollama_client lib host model s) = (False, Some msg) \<and>
           msg = ''Unexpected error: '' @ message e \<and> msg \<noteq> [] \<and>
           connect lib host model s = Inr s' \<and>
           ollama_client s' = None \<and>
           connection_status s' = ''Connection Failed: '' @ msg \<and>
           ollama_host s' = host \<and> ollama_model s' = model \<and>
           last_successful_config s' = last_successful_config s"
  using assms
  by (auto simp add: connect_def update_connection_eq initialize_ollama_client_def new_client_def)

theorem connect_failure_witness:
  "client_raises good_server ''http://localhost:11434'' = None \<and>
   show_raises good_server (net connected_state) ''http://localhost:11434'' ''phi4'' =
     Some (Exception ''model not found'') \<and>
   fst (initialize_ollama_client good_server ''http://localhost:11434'' ''phi4''
          connected_state) = (False, Some ''Unexpected error: model not found'') \<and>
   (\<exists>s'. connect good_server ''http://localhost:11434'' ''phi4'' connected_state = Inr s' \<and>
      ollama_client s' = None \<and>
      connection_status s' = ''Connection Failed: Unexpected error: model not found'' \<and>
      ollama_model s' = ''phi4'')"
proof -
  have h: "client_raises good_server ''http://localhost:11434'' =
             Some (Exception ''model not found'') \<or>
           (client_raises good_server ''http://localhost:11434'' = None \<and>
            show_raises good_server (net connected_state) ''http://localhost:11434'' ''phi4'' =
              Some (Exception ''model not found''))"
    by (simp add: good_server_def)
  from connect_failure [OF h] h show ?thesis
    by (auto simp add: good_server_def)
qed

section \<open>Response streamer: properties\<close>

lemma consume_eq:
  "consume stream full s =
     ((case stream_error stream of
         Some e \<Rightarrow> Inl e
       | None \<Rightarrow> Inr (full @ concat (responses stream))),
      s\<lparr>ui := ui s @ map Markdown (running full (responses stream))\<rparr>)"
  by (induction stream full s rule: consume.induct) (auto split: option.splits)

lemma running_take:
  "running acc rs = map (\<lambda>n. acc @ concat (take (Suc n) rs)) [0..<length rs]"
proof (induction rs arbitrary: acc)
  case Nil
  show ?case by simp
next
  case (Cons r rs)
  have "map (\<lambda>n. acc @ concat (take (Suc n) (r # rs))) [0..<length (r # rs)] =
        (acc @ r) # map (\<lambda>n. acc @ concat (take (Suc n) (r # rs))) (map Suc [0..<length rs])"
    by (simp add: upt_conv_Cons map_Suc_upt del: upt_Suc)
  also have "\<dots> = (acc @ r) # map (\<lambda>n. (acc @ r) @ concat (take (Suc n) rs)) [0..<length rs]"
    by simp
  finally show ?case using Cons.IH [of "acc @ r"] by simp
qed

lemma markdowns_append: "markdowns (xs @ ys) = markdowns xs @ markdowns ys"
  by (induction xs rule: markdowns.induct) auto

lemma markdowns_map: "markdowns (map Markdown ts) = ts"
  by (induction ts) auto

lemma generate_calls_append:
  "generate_calls (xs @ ys) = generate_calls xs @ generate_calls ys"
  by (induction xs rule: generate_calls.induct) auto

lemma generate_body_eq:
  assumes "ollama_client s = Some c"
  shows "generate_body lib user_prompt system_prompt s =
    (let call = Generate (host_of c) (ollama_model s) user_prompt (system_arg system_prompt);
         stream = generate_stream lib (net s) (host_of c) (ollama_model s) user_prompt
                    (system_arg system_prompt);
         s2 = s\<lparr>net := net s @ [call],
                 ui := ui s @ Empty # map Markdown (running [] (responses stream))\<rparr>
     in case stream_error stream of
          Some e \<Rightarrow> (Inl e, s2)
        | None \<Rightarrow>
            (case system_prompt of
               None \<Rightarrow>
                 (Inl (Exception (''object of type '' @ [CHR 0x27] @ ''NoneType'' @
                                  [CHR 0x27] @ '' has no len()'')),
                  s2\<lparr>ui := ui s2 @ [Expander ''Debug Information'']\<rparr>)
             | Some sp \<Rightarrow>
                 (Inr (),
                  s2\<lparr>ui := ui s2 @
                    [Expander ''Debug Information'',
                     Code (''Model: '' @ ollama_model s @ [CHR 0x0A] @
                           ''Host: '' @ ollama_host s @ [CHR 0x0A] @
                           ''System Prompt Length: '' @ str_of_nat (length sp) @
                           [CHR 0x0A] @
                           ''User Prompt Length: '' @ str_of_nat (length user_prompt))]\<rparr>)))"
  using assms
  by (simp add: generate_body_def consume_eq Let_def split: option.splits)


text \<open>
  Claim C1. With a non-empty prompt and a stored client, when the stream raises \<open>e\<close>
  (on its first item or on a later one), the \<^verbatim>\<open>try\<close> body ends with \<open>e\<close> and
  \<open>generate_ollama_response\<close> still returns: the exception does not leave it. Its
  result is that of one call of \<open>update_connection\<close> on the state with the error
  message written to the page, where host and model are the stored ones. Over the whole
  call exactly one \<^verbatim>\<open>generate\<close> call reaches the server, followed by at most the one
  \<^verbatim>\<open>show\<close> call of the reconnect, made for the stored host and model (none when the
  client cannot be built).
\<close>

theorem generate_error_reconnects_once:
  assumes "user_prompt \<noteq> []"
    and "ollama_client s = Some c"
    and "stream_error (generate_stream lib (net s) (host_of c) (ollama_model s) user_prompt
           (system_arg system_prompt)) = Some e"
  shows "\<exists>s1 s'.
           generate_body lib user_prompt system_prompt s = (Inl e, s1) \<and>
           generate_ollama_response lib user_prompt system_prompt s = Inr s' \<and>
           update_connection lib
             (s1\<lparr>ui := ui s1 @ [Error (''An error occurred while generating: '' @ message e)]\<rparr>)
             = Inr s' \<and>
           ollama_host s1 = ollama_host s \<and> ollama_model s1 = ollama_model s \<and>
           Error (''An error occurred while generating: '' @ message e) \<in> set (ui s') \<and>
           generate_calls (net s') =
             generate_calls (net s) @
             [Generate (host_of c) (ollama_model s) user_prompt (system_arg system_prompt)] \<and>
           net s' =
             net s @
             [Generate (host_of c) (ollama_model s) user_prompt (system_arg system_prompt)] @
             (if client_raises lib (ollama_host s) = None
              then [Show (ollama_host s) (ollama_model s)] else [])"
  using assms
  by (simp add: generate_ollama_response_def generate_body_eq update_connection_eq Let_def
      generate_calls_append split: option.splits)


theorem generate_error_reconnects_once_witness:
  "''Hi'' \<noteq> [] \<and>
   ollama_client connected_state = Some (Client ''http://localhost:11434'') \<and>
   stream_error (generate_stream flaky_server (net connected_state) ''http://localhost:11434''
     ''llama3.2'' ''Hi'' None) = Some (Exception ''connection reset'') \<and>
   generate_ollama_response flaky_server ''Hi'' (Some []) connected_state =
     Inr (connected_state
            \<lparr>net := [Generate ''http://localhost:11434'' ''llama3.2'' ''Hi'' None,
                      Show ''http://localhost:11434'' ''llama3.2''],
             ui := [Empty, Markdown ''Hel'',
                    Error ''An error occurred while generating: connection reset''],
             last_successful_config :=
               Some [''host'' \<mapsto> ''http://localhost:11434'', ''model'' \<mapsto> ''llama3.2'']\<rparr>)"
  using generate_error_reconnects_once [of "''Hi''" connected_state
      "Client ''http://localhost:11434''" flaky_server "Some []" "Exception ''connection reset''"]
  by (simp add: flaky_server_def connected_state_def initial_state_def system_arg_def
      generate_ollama_response_def generate_body_def update_connection_def
      initialize_ollama_client_def new_client_def)

lemma running_nil: "running [] rs = map (\<lambda>n. concat (take (Suc n) rs)) [0..<length rs]"
  by (simp add: running_take)

lemma generate_returns:
  "\<exists>s'. generate_ollama_response lib user_prompt system_prompt s = Inr s'"
proof (cases "ollama_client s")
  case None
  then show ?thesis
    by (simp add: generate_ollama_response_def generate_body_def update_connection_eq)
next
  case (Some c)
  then show ?thesis
    by (simp add: generate_ollama_response_def generate_body_eq update_connection_eq Let_def
        split: option.splits)
qed

lemma generate_markdowns:
  assumes "user_prompt \<noteq> []"
    and "ollama_client s = Some c"
  shows "\<exists>s'. generate_ollama_response lib user_prompt system_prompt s = Inr s' \<and>
           markdowns (ui s') =
             markdowns (ui s) @
             running [] (responses (generate_stream lib (net s) (host_of c) (ollama_model s)
               user_prompt (system_arg system_prompt)))"
  using assms
  by (simp add: generate_ollama_response_def generate_body_eq update_connection_eq Let_def
      markdowns_append markdowns_map split: option.splits)

text \<open>
  Claim C3. With a non-empty prompt and a stored client, let \<open>rs\<close> be the texts of the
  \<^verbatim>\<open>response\<close> fields of the chunks the stream hands out, in order (chunks without
  the field are not in \<open>rs\<close>). The call returns, and the texts the container was redrawn
  with during the call are, in order, the concatenations of the first one, the first two,
  and so on up to all of \<open>rs\<close>: each is the whole text so far. For the chunks
  \<^verbatim>\<open>Hel\<close>, \<^verbatim>\<open>lo\<close> these are \<^verbatim>\<open>Hel\<close>, \<^verbatim>\<open>Hello\<close>.
\<close>

theorem generate_yields_accumulated:
  assumes "user_prompt \<noteq> []"
    and "ollama_client s = Some c"
    and "rs = responses (generate_stream lib (net s) (host_of c) (ollama_model s) user_prompt
           (system_arg system_prompt))"
  shows "\<exists>s'. generate_ollama_response lib user_prompt system_prompt s = Inr s' \<and>
           markdowns (ui s') =
             markdowns (ui s) @ map (\<lambda>n. concat (take (Suc n) rs)) [0..<length rs]"
proof -
  have "\<exists>s'. generate_ollama_response lib user_prompt system_prompt s = Inr s' \<and>
          markdowns (ui s') = markdowns (ui s) @ running [] rs"
    using generate_markdowns [OF assms(1,2)] assms(3) by simp
  then show ?thesis
    by (simp only: running_nil)
qed

theorem generate_yields_accumulated_witness:
  "''Hi'' \<noteq> [] \<and>
   ollama_client connected_state = Some (Client ''http://localhost:11434'') \<and>
   responses (generate_stream good_server (net connected_state) ''http://localhost:11434''
     ''llama3.2'' ''Hi'' (Some ''Be brief.'')) = [''Hel'', ''lo''] \<and>
   (\<exists>s'. generate_ollama_response good_server ''Hi'' (Some ''Be brief.'') connected_state =
            Inr s' \<and>
          markdowns (ui s') = [''Hel'', ''Hello''])"
proof -
  have h: "[''Hel'', ''lo''] =
           responses (generate_stream good_server (net connected_state)
             (host_of (Client ''http://localhost:11434'')) (ollama_model connected_state) ''Hi''
             (system_arg (Some ''Be brief.'')))"
    by (simp add: good_server_def)
  have c: "ollama_client connected_state = Some (Client ''http://localhost:11434'')"
    by (simp add: connected_state_def)
  have u: "markdowns (ui connected_state) = []"
    by (simp add: connected_state_def initial_state_def)
  have m: "map (\<lambda>n. concat (take (Suc n) [''Hel'', ''lo''])) [0..<length [''Hel'', ''lo'']] =
           [''Hel'', ''Hello'']"
    by (simp add: upt_conv_Cons)
  from generate_yields_accumulated [OF _ c h] u m c h
  show ?thesis
    by (simp add: connected_state_def initial_state_def system_arg_def)
qed


text \<open>
  Claim C7. With the empty user prompt \<open>generate_ollama_response\<close> returns at once: it
  writes the warning and nothing else changes. No call reaches the server and the stored
  client is neither read nor replaced, whatever the library and the state are.
\<close>

theorem generate_empty_prompt_no_call:
  "\<exists>s'. generate_ollama_response lib [] system_prompt s = Inr s' \<and>
         s' = s\<lparr>ui := ui s @ [Warning ''Please enter a prompt before generating.'']\<rparr> \<and>
         net s' = net s \<and>
         ollama_client s' = ollama_client s"
  by (simp add: generate_ollama_response_def)

theorem generate_empty_prompt_no_call_witness:
  "\<exists>s'. generate_ollama_response flaky_server [] (Some ''You are a helpful AI assistant.'')
           connected_state = Inr s' \<and>
         ui s' = [Warning ''Please enter a prompt before generating.''] \<and>
         net s' = []"
  using generate_empty_prompt_no_call [of flaky_server
      "Some ''You are a helpful AI assistant.''" connected_state]
  by (simp add: connected_state_def initial_state_def)

text \<open>
  Claim C9. With a non-empty prompt and a stored client, the call makes exactly one
  \<^verbatim>\<open>generate\<close> call. Its \<^verbatim>\<open>system\<close> argument is \<^verbatim>\<open>None\<close> when the system prompt is
  \<^verbatim>\<open>None\<close> or the empty string, and is the system prompt itself when that is a non-empty
  string.
\<close>

theorem generate_system_prompt_arg:
  assumes "user_prompt \<noteq> []"
    and "ollama_client s = Some c"
  shows "\<exists>s' system.
           generate_ollama_response lib user_prompt system_prompt s = Inr s' \<and>
           generate_calls (net s') =
             generate_calls (net s) @
             [Generate (host_of c) (ollama_model s) user_prompt system] \<and>
           (system_prompt = None \<or> system_prompt = Some [] \<longrightarrow> system = None) \<and>
           (\<forall>sp. system_prompt = Some sp \<and> sp \<noteq> [] \<longrightarrow> system = Some sp)"
  using assms
  by (simp add: generate_ollama_response_def generate_body_eq update_connection_eq Let_def
      generate_calls_append system_arg_def split: option.splits)

theorem generate_system_prompt_arg_witness:
  "''Hi'' \<noteq> [] \<and>
   ollama_client connected_state = Some (Client ''http://localhost:11434'') \<and>
   (\<exists>s'. generate_ollama_response good_server ''Hi'' (Some []) connected_state = Inr s' \<and>
      generate_calls (net s') = [Generate ''http://localhost:11434'' ''llama3.2'' ''Hi'' None]) \<and>
   (\<exists>s'. generate_ollama_response good_server ''Hi'' (Some ''Be brief.'') connected_state =
            Inr s' \<and>
      generate_calls (net s') =
        [Generate ''http://localhost:11434'' ''llama3.2'' ''Hi'' (Some ''Be brief.'')])"
proof -
  have p: "''Hi'' \<noteq> []"
    by simp
  have c: "ollama_client connected_state = Some (Client ''http://localhost:11434'')"
    by (simp add: connected_state_def)
  have n: "generate_calls (net connected_state) = []" "ollama_model connected_state = ''llama3.2''"
    by (simp_all add: connected_state_def initial_state_def)
  from generate_system_prompt_arg [OF p c, of good_server "Some []"]
    generate_system_prompt_arg [OF p c, of good_server "Some ''Be brief.''"] c n
  show ?thesis
    by auto
qed

text \<open>
  Claim C10. With a stored client, \<open>generate_ollama_response\<close> leaves the server
  untouched exactly when the user prompt is the empty string. For every other prompt, one
  made of blanks only included, the next call to the server is the \<^verbatim>\<open>generate\<close> call,
  with the prompt passed as it is.
\<close>

theorem generate_nonempty_prompt_calls:
  assumes "ollama_client s = Some c"
  shows "\<exists>s'. generate_ollama_response lib user_prompt system_prompt s = Inr s' \<and>
           (net s' = net s \<longleftrightarrow> user_prompt = []) \<and>
           (user_prompt \<noteq> [] \<longrightarrow>
              (\<exists>rest. net s' =
                 net s @
                 Generate (host_of c) (ollama_model s) user_prompt (system_arg system_prompt) #
                 rest))"
  using assms
  by (simp add: generate_ollama_response_def generate_body_eq update_connection_eq Let_def
      split: option.splits)

theorem generate_nonempty_prompt_calls_witness:
  "ollama_client connected_state = Some (Client ''http://localhost:11434'') \<and>
   '' '' \<noteq> [] \<and>
   (\<exists>s'. generate_ollama_response good_server '' '' (Some []) connected_state = Inr s' \<and>
      net s' = [Generate ''http://localhost:11434'' ''llama3.2'' '' '' None])"
proof -
  have c: "ollama_client connected_state = Some (Client ''http://localhost:11434'')"
    by (simp add: connected_state_def)
  from generate_nonempty_prompt_calls [OF c, of good_server "'' ''" "Some []"] c
  show ?thesis
    by (simp add: generate_ollama_response_def generate_body_def good_server_def
        connected_state_def initial_state_def system_arg_def)
qed

text \<open>
  Without a stored client no \<^verbatim>\<open>generate\<close> call is made: looking up \<^verbatim>\<open>generate\<close> on
  \<^verbatim>\<open>None\<close> raises, the error is written and \<open>update_connection\<close> runs. The page
  script calls \<open>generate_ollama_response\<close> only when a client is stored (lines 171 and
  196).
\<close>

lemma generate_without_client:
  assumes "user_prompt \<noteq> []"
    and "ollama_client s = None"
  shows "\<exists>s'. generate_ollama_response lib user_prompt system_prompt s = Inr s' \<and>
           generate_calls (net s') = generate_calls (net s) \<and>
           update_connection lib
             (s\<lparr>ui := ui s @
                [Empty,
                 Error (''An error occurred while generating: '' @ [CHR 0x27] @ ''NoneType'' @
                        [CHR 0x27] @ '' object has no attribute '' @ [CHR 0x27] @
                        ''generate'' @ [CHR 0x27])]\<rparr>) = Inr s'"
  using assms
  by (simp add: generate_ollama_response_def generate_body_def update_connection_eq
      generate_calls_append split: option.splits)

section \<open>Document reader: properties\<close>

text \<open>
  Lower-casing leaves the dot and the slash alone and maps no other character to them, so
  \<open>splitext\<close> cuts a name and its lower-cased form at the same place.
\<close>

lemma of_char_lower_char:
  "(of_char (lower_char c) :: nat) =
     (let n = of_char c
      in if (65 \<le> n \<and> n \<le> 90) \<or> (192 \<le> n \<and> n \<le> 222 \<and> n \<noteq> 215) then n + 32 else n)"
  by (auto simp add: lower_char_def Let_def)

lemma lower_char_idem: "lower_char (lower_char c) = lower_char c"
proof -
  have "(of_char (lower_char (lower_char c)) :: nat) = of_char (lower_char c)"
    by (simp add: of_char_lower_char [of "lower_char c"] Let_def)
       (auto simp add: of_char_lower_char Let_def)
  then show ?thesis
    by (simp only: of_char_eq_iff)
qed

lemma lower_idem: "lower (lower t) = lower t"
  by (simp add: lower_def lower_char_idem)

lemma lower_char_dot: "lower_char c = CHR ''.'' \<longleftrightarrow> c = CHR ''.''"
proof -
  have "(of_char (lower_char c) :: nat) = of_char (CHR ''.'') \<longleftrightarrow> (of_char c :: nat) = of_char (CHR ''.'')"
    by (auto simp add: of_char_lower_char Let_def)
  then show ?thesis
    by (simp only: of_char_eq_iff)
qed

lemma lower_char_slash: "lower_char c = CHR ''/'' \<longleftrightarrow> c = CHR ''/''"
proof -
  have "(of_char (lower_char c) :: nat) = of_char (CHR ''/'') \<longleftrightarrow> (of_char c :: nat) = of_char (CHR ''/'')"
    by (auto simp add: of_char_lower_char Let_def)
  then show ?thesis
    by (simp only: of_char_eq_iff)
qed

lemma rfind_lower_dot: "rfind (lower p) (CHR ''.'') = rfind p (CHR ''.'')"
  by (induction p) (simp_all add: lower_def lower_char_dot Let_def)

lemma rfind_lower_slash: "rfind (lower p) (CHR ''/'') = rfind p (CHR ''/'')"
  by (induction p) (simp_all add: lower_def lower_char_slash Let_def)

lemma is_dot_lower:
  "take 1 (drop i (lower p)) = ''.'' \<longleftrightarrow> take 1 (drop i p) = ''.''"
proof -
  have "take 1 (drop i (lower p)) = lower (take 1 (drop i p))"
    by (simp add: lower_def take_map drop_map)
  moreover have "lower t = ''.'' \<longleftrightarrow> t = ''.''" for t
    by (cases t) (auto simp add: lower_def lower_char_dot)
  ultimately show ?thesis by simp
qed

lemma splitext_loop_lower:
  "splitext_loop (lower p) i j =
     (lower (fst (splitext_loop p i j)), lower (snd (splitext_loop p i j)))"
proof (induction p i j rule: splitext_loop.induct)
  case (1 p filenameIndex dotIndex)
  show ?case
  proof (cases "filenameIndex < dotIndex")
    case False
    then show ?thesis
      by (simp add: splitext_loop.simps [of _ filenameIndex dotIndex] lower_def)
  next
    case True
    show ?thesis
    proof (cases "take 1 (drop filenameIndex p) = ''.''")
      case dot: True
      with True 1 show ?thesis
        by (simp add: splitext_loop.simps [of _ filenameIndex dotIndex] is_dot_lower [unfolded One_nat_def])
    next
      case nodot: False
      with True show ?thesis
        by (simp add: splitext_loop.simps [of _ filenameIndex dotIndex] is_dot_lower [unfolded One_nat_def])
           (simp add: lower_def take_map drop_map)
    qed
  qed
qed

lemma splitext_lower:
  "splitext (lower p) = (lower (fst (splitext p)), lower (snd (splitext p)))"
  by (simp add: splitext_def rfind_lower_dot rfind_lower_slash splitext_loop_lower Let_def)
     (simp add: lower_def)

lemma extension_of_lower:
  "lower (snd (splitext p)) = lower (snd (splitext (lower p)))"
  by (simp add: splitext_lower lower_idem)


text \<open>
  The page loop appends the texts in page order and stops at the first page that raises.
  A list of pages either has a text for every page or has a first page that raises.
\<close>

lemma extract_pages_texts:
  "extract_pages (map Inr texts @ pages) acc = extract_pages pages (acc @ concat texts)"
  by (induction texts arbitrary: acc) simp_all

lemma pdf_not_text: "''.pdf'' \<notin> set text_extensions"
  by (simp add: text_extensions_def)

lemma pages_cases:
  "(\<exists>texts. pages = map Inr texts) \<or> (\<exists>before e rest. pages = map Inr before @ Inl e # rest)"
proof (induction pages)
  case Nil
  then show ?case by simp
next
  case (Cons page pages)
  show ?case
  proof (cases page)
    case (Inl e)
    then have "page # pages = map Inr [] @ Inl e # pages"
      by simp
    then have "\<exists>before e rest. page # pages = map Inr before @ Inl e # rest"
      by (intro exI)
    then show ?thesis ..
  next
    case (Inr t)
    from Cons.IH show ?thesis
    proof
      assume "\<exists>texts. pages = map Inr texts"
      then obtain texts where "pages = map Inr texts" ..
      with Inr have "page # pages = map Inr (t # texts)"
        by simp
      then have "\<exists>texts. page # pages = map Inr texts"
        by (rule exI)
      then show ?thesis ..
    next
      assume "\<exists>before e rest. pages = map Inr before @ Inl e # rest"
      then obtain before e rest where "pages = map Inr before @ Inl e # rest"
        by blast
      with Inr have "page # pages = map Inr (t # before) @ Inl e # rest"
        by simp
      then have "\<exists>before e rest. page # pages = map Inr before @ Inl e # rest"
        by (intro exI)
      then show ?thesis ..
    qed
  qed
qed

text \<open>
  Claim C4. Let the extension of the file name, as \<^verbatim>\<open>os.path.splitext\<close> cuts it and
  lower-cased, be \<^verbatim>\<open>.pdf\<close>. If the reader opens the bytes and every page gives its
  text, the result is the texts of the pages joined in page order with nothing between
  them, and nothing is written to the page. If the reader raises, or some page raises
  after any number of pages that gave their text, the result is \<^verbatim>\<open>None\<close>, with the
  message \<^verbatim>\<open>Error reading PDF content: \<close> and the exception: no part of the text is
  returned.
\<close>

theorem read_pdf:
  assumes "lower (snd (splitext (name f))) = ''.pdf''"
  shows "(PdfReader dl (content f) = Inr (map Inr texts) \<longrightarrow>
            read_document_content dl f s = (Some (concat texts), s)) \<and>
         (PdfReader dl (content f) = Inl e \<longrightarrow>
            read_document_content dl f s =
              (None, s\<lparr>ui := ui s @ [Error (''Error reading PDF content: '' @ message e)]\<rparr>)) \<and>
         (PdfReader dl (content f) = Inr (map Inr before @ Inl e # rest) \<longrightarrow>
            read_document_content dl f s =
              (None, s\<lparr>ui := ui s @ [Error (''Error reading PDF content: '' @ message e)]\<rparr>))"
proof -
  have "extract_pages (map Inr texts) [] = Inr (concat texts)"
    using extract_pages_texts [of texts "[]" "[]"] by simp
  moreover have "extract_pages (map Inr before @ Inl e # rest) [] = Inl e"
    by (simp add: extract_pages_texts)
  ultimately show ?thesis
    using assms pdf_not_text by (simp add: read_document_content_def)
qed

theorem read_pdf_witness:
  "lower (snd (splitext ''Report.PDF'')) = ''.pdf'' \<and>
   PdfReader toy_doclib [37, 80, 68, 70, 97, 98] = Inr (map Inr [''a'', ''b'']) \<and>
   read_document_content toy_doclib \<lparr>name = ''Report.PDF'', content = [37, 80, 68, 70, 97, 98]\<rparr>
     initial_state = (Some ''ab'', initial_state) \<and>
   PdfReader toy_doclib [37, 80, 68, 70, 97, 200, 98] =
     Inr (map Inr [''a''] @ Inl (Exception ''cannot extract page'') # [Inr ''b'']) \<and>
   read_document_content toy_doclib
     \<lparr>name = ''Report.PDF'', content = [37, 80, 68, 70, 97, 200, 98]\<rparr> initial_state =
     (None, initial_state\<lparr>ui := [Error ''Error reading PDF content: cannot extract page'']\<rparr>)"
proof -
  have x: "lower (snd (splitext ''Report.PDF'')) = ''.pdf''"
    by code_simp
  have p: "PdfReader toy_doclib [37, 80, 68, 70, 97, 98] = Inr (map Inr [''a'', ''b''])"
    by code_simp
  have q: "PdfReader toy_doclib [37, 80, 68, 70, 97, 200, 98] =
           Inr (map Inr [''a''] @ Inl (Exception ''cannot extract page'') # [Inr ''b''])"
    by code_simp
  have u: "ui initial_state = []"
    by (simp add: initial_state_def)
  from read_pdf [where f = "\<lparr>name = ''Report.PDF'', content = [37, 80, 68, 70, 97, 98]\<rparr>"
      and dl = toy_doclib and s = initial_state and texts = "[''a'', ''b'']"]
    read_pdf [where f = "\<lparr>name = ''Report.PDF'', content = [37, 80, 68, 70, 97, 200, 98]\<rparr>"
      and dl = toy_doclib and s = initial_state and before = "[''a'']"
      and e = "Exception ''cannot extract page''" and rest = "[Inr ''b'']"] x p q u
  show ?thesis
    by simp
qed

text \<open>
  Claim C5. Let the lower-cased extension of the file name be one of the ten of
  \<open>text_extensions\<close>. If decoding the bytes as UTF-8 gives the text \<open>t\<close>, the result is
  \<open>t\<close> as it is and nothing is written to the page. If decoding raises, the function
  still returns: the result is \<^verbatim>\<open>None\<close>, with the message
  \<^verbatim>\<open>Error reading text-based content: \<close> and the exception.
\<close>

theorem read_text:
  assumes "lower (snd (splitext (name f))) \<in> set text_extensions"
  shows "(decode_utf8 dl (content f) = Inr t \<longrightarrow>
            read_document_content dl f s = (Some t, s)) \<and>
         (decode_utf8 dl (content f) = Inl e \<longrightarrow>
            read_document_content dl f s =
              (None,
               s\<lparr>ui := ui s @ [Error (''Error reading text-based content: '' @ message e)]\<rparr>))"
  using assms by (simp add: read_document_content_def)

theorem read_text_witness:
  "lower (snd (splitext ''notes.txt'')) \<in> set text_extensions \<and>
   decode_utf8 toy_doclib [104, 105] = Inr ''hi'' \<and>
   read_document_content toy_doclib \<lparr>name = ''notes.txt'', content = [104, 105]\<rparr>
     initial_state = (Some ''hi'', initial_state) \<and>
   decode_utf8 toy_doclib [104, 255] = Inl (Exception ''invalid start byte'') \<and>
   read_document_content toy_doclib \<lparr>name = ''notes.txt'', content = [104, 255]\<rparr>
     initial_state =
     (None,
      initial_state\<lparr>ui := [Error ''Error reading text-based content: invalid start byte'']\<rparr>)"
proof -
  have x: "lower (snd (splitext ''notes.txt'')) \<in> set text_extensions"
    by code_simp
  have p: "decode_utf8 toy_doclib [104, 105] = Inr ''hi''"
    by code_simp
  have q: "decode_utf8 toy_doclib [104, 255] = Inl (Exception ''invalid start byte'')"
    by code_simp
  have u: "ui initial_state = []"
    by (simp add: initial_state_def)
  from read_text [where f = "\<lparr>name = ''notes.txt'', content = [104, 105]\<rparr>"
      and dl = toy_doclib and s = initial_state and t = "''hi''"]
    read_text [where f = "\<lparr>name = ''notes.txt'', content = [104, 255]\<rparr>"
      and dl = toy_doclib and s = initial_state and e = "Exception ''invalid start byte''"]
    x p q u
  show ?thesis
    by simp
qed

lemma unsupported_message:
  "''Unsupported file type. Please upload TXT, PDF, MD, or code files ('' @
     join '', '' (drop 2 text_extensions) @ '').'' =
   ''Unsupported file type. Please upload TXT, PDF, MD, or code files (.js, .py, .cs, .go, .html, .css, .xml, .json).''"
  by (simp add: text_extensions_def)


lemma unsupported_message_names:
  "(\<forall>x \<in> set (drop 2 text_extensions). sublist x
      ''Unsupported file type. Please upload TXT, PDF, MD, or code files (.js, .py, .cs, .go, .html, .css, .xml, .json).'') \<and>
   sublist ''TXT''
      ''Unsupported file type. Please upload TXT, PDF, MD, or code files (.js, .py, .cs, .go, .html, .css, .xml, .json).'' \<and>
   sublist ''PDF''
      ''Unsupported file type. Please upload TXT, PDF, MD, or code files (.js, .py, .cs, .go, .html, .css, .xml, .json).'' \<and>
   sublist ''MD''
      ''Unsupported file type. Please upload TXT, PDF, MD, or code files (.js, .py, .cs, .go, .html, .css, .xml, .json).''"
  by code_simp

lemma read_document_content_lower:
  "read_document_content dl (f\<lparr>name := lower n\<rparr>) s = read_document_content dl (f\<lparr>name := n\<rparr>) s"
  by (simp add: read_document_content_def extension_of_lower [of n] Let_def)

text \<open>
  Claim C6. Two names that differ in letter case only are read alike. When the lower-cased
  extension is neither \<^verbatim>\<open>.pdf\<close> nor in \<open>text_extensions\<close>, the result is \<^verbatim>\<open>None\<close>
  and one warning is written; its text is the one given here, in which \<^verbatim>\<open>TXT\<close>,
  \<^verbatim>\<open>PDF\<close>, \<^verbatim>\<open>MD\<close> and each of the other eight extensions occur.
\<close>

theorem read_unsupported:
  "(lower n1 = lower n2 \<longrightarrow>
      read_document_content dl (f\<lparr>name := n1\<rparr>) s =
      read_document_content dl (f\<lparr>name := n2\<rparr>) s) \<and>
   (lower (snd (splitext (name f))) \<notin> set (''.pdf'' # text_extensions) \<longrightarrow>
      (\<exists>msg. read_document_content dl f s = (None, s\<lparr>ui := ui s @ [Warning msg]\<rparr>) \<and>
         msg = ''Unsupported file type. Please upload TXT, PDF, MD, or code files (.js, .py, .cs, .go, .html, .css, .xml, .json).'' \<and>
         (\<forall>x \<in> set (drop 2 text_extensions). sublist x msg) \<and>
         sublist ''TXT'' msg \<and> sublist ''PDF'' msg \<and> sublist ''MD'' msg))"
proof (intro conjI impI)
  assume "lower n1 = lower n2"
  then show "read_document_content dl (f\<lparr>name := n1\<rparr>) s =
             read_document_content dl (f\<lparr>name := n2\<rparr>) s"
    using read_document_content_lower [where n = n1 and dl = dl and f = f and s = s]
      read_document_content_lower [where n = n2 and dl = dl and f = f and s = s]
    by simp
next
  assume "lower (snd (splitext (name f))) \<notin> set (''.pdf'' # text_extensions)"
  then have "read_document_content dl f s =
    (None,
     s\<lparr>ui := ui s @
       [Warning (''Unsupported file type. Please upload TXT, PDF, MD, or code files ('' @
                 join '', '' (drop 2 text_extensions) @ '').'')]\<rparr>)"
    by (simp add: read_document_content_def Let_def)
  then have "read_document_content dl f s =
    (None, s\<lparr>ui := ui s @ [Warning ''Unsupported file type. Please upload TXT, PDF, MD, or code files (.js, .py, .cs, .go, .html, .css, .xml, .json).'']\<rparr>)"
    by (simp only: unsupported_message)
  with unsupported_message_names
  show "\<exists>msg. read_document_content dl f s = (None, s\<lparr>ui := ui s @ [Warning msg]\<rparr>) \<and>
         msg = ''Unsupported file type. Please upload TXT, PDF, MD, or code files (.js, .py, .cs, .go, .html, .css, .xml, .json).'' \<and>
         (\<forall>x \<in> set (drop 2 text_extensions). sublist x msg) \<and>
         sublist ''TXT'' msg \<and> sublist ''PDF'' msg \<and> sublist ''MD'' msg"
    by blast
qed

theorem read_unsupported_witness:
  "lower ''IMAGE.PNG'' = lower ''image.png'' \<and>
   lower (snd (splitext ''image.png'')) \<notin> set (''.pdf'' # text_extensions) \<and>
   read_document_content toy_doclib \<lparr>name = ''IMAGE.PNG'', content = [137, 80, 78, 71]\<rparr>
     initial_state =
   (None, initial_state\<lparr>ui := [Warning ''Unsupported file type. Please upload TXT, PDF, MD, or code files (.js, .py, .cs, .go, .html, .css, .xml, .json).'']\<rparr>)"
proof -
  have l: "lower ''IMAGE.PNG'' = lower ''image.png''"
    by code_simp
  have e: "lower (snd (splitext (name \<lparr>name = ''image.png'', content = [137, 80, 78, 71]\<rparr>)))
             \<notin> set (''.pdf'' # text_extensions)"
    by code_simp
  have u: "ui initial_state = []"
    by (simp add: initial_state_def)
  from read_unsupported [of "''IMAGE.PNG''" "''image.png''" toy_doclib
      "\<lparr>name = ''image.png'', content = [137, 80, 78, 71]\<rparr>" initial_state] l e u
  show ?thesis
    by auto
qed

end
